theory Spec2Isabelle
  imports Main
begin

section \<open>The HTTP client and the session of goPAS\<close>

text \<open>
  A shallow embedding of the package \<^verbatim>\<open>client\<close> (the client with
  \<^verbatim>\<open>NewClient\<close> and \<^verbatim>\<open>Do\<close>, called client.go below, in
  \<^verbatim>\<open>src/unnamed/part_001\<close>; its errors with \<^verbatim>\<open>parseAPIError\<close>, called
  errors.go below, in \<^verbatim>\<open>src/unnamed/part_002\<close>) and of
  \<^verbatim>\<open>internal/session/session.go\<close>. Go strings and byte slices are
  \<^typ>\<open>string\<close> (lists of bytes), Go's \<^verbatim>\<open>int\<close> and
  \<^verbatim>\<open>time.Duration\<close> are \<^typ>\<open>int\<close>. What the code takes from the
  standard library and from the network (JSON encoding and decoding, URL encoding,
  request construction, the round trip) is a parameter of the model, collected in the
  record \<open>runtime\<close> below.
\<close>

subsection \<open>errors.go: the API error\<close>

text \<open>
  \<^verbatim>\<open>type APIError struct { StatusCode int `json:"-"`; ErrorCode, ErrorMsg, Details string }\<close>
\<close>

record APIError =
  StatusCode :: int
  ErrorCode :: string
  ErrorMsg :: string
  Details :: string

text \<open>
  Go's \<^verbatim>\<open>error\<close> values met in the two packages: an error of the standard
  library (known by its message), \<^verbatim>\<open>fmt.Errorf("...: %w", err)\<close> wrapping
  another error behind a prefix, and a \<^verbatim>\<open>*APIError\<close>.
\<close>

datatype error =
    ErrorString string
  | Wrapped string error
  | APIErr APIError

text \<open>\<^verbatim>\<open>fmt.Sprintf("%d", n)\<close>: the decimal digits of \<open>n\<close>, with a minus sign below zero.\<close>

definition digit_char :: "nat \<Rightarrow> char" where
  "digit_char d =
     (if d = 0 then CHR ''0'' else if d = 1 then CHR ''1'' else if d = 2 then CHR ''2''
      else if d = 3 then CHR ''3'' else if d = 4 then CHR ''4'' else if d = 5 then CHR ''5''
      else if d = 6 then CHR ''6'' else if d = 7 then CHR ''7'' else if d = 8 then CHR ''8''
      else CHR ''9'')"

fun nat_digits :: "nat \<Rightarrow> string" where
  "nat_digits n =
     (if n < 10 then [digit_char n] else nat_digits (n div 10) @ [digit_char (n mod 10)])"

declare nat_digits.simps [simp del]

definition fmt_d :: "int \<Rightarrow> string" where
  "fmt_d n = (if n < 0 then CHR ''-'' # nat_digits (nat (- n)) else nat_digits (nat n))"

text \<open>
  \<^verbatim>\<open>json.Unmarshal(resp.Body, apiErr)\<close> is the standard library's. It is a
  parameter \<open>unmarshal\<close> of the model: given the bytes and the target as it stands, it
  answers whether it returned an error (\<open>True\<close>) and the target as it left it. The
  tag \<^verbatim>\<open>json:"-"\<close> keeps \<open>StatusCode\<close> out of the decoding, whatever the bytes
  are, so the decoded target gets the status code it had.
\<close>

type_synonym unmarshal = "string \<Rightarrow> APIError \<Rightarrow> bool \<times> APIError"

definition Unmarshal_APIError :: "unmarshal \<Rightarrow> string \<Rightarrow> APIError \<Rightarrow> bool \<times> APIError" where
  "Unmarshal_APIError um b target =
     (case um b target of (failed, e) \<Rightarrow> (failed, e\<lparr>StatusCode := StatusCode target\<rparr>))"

text \<open>\<^verbatim>\<open>type Response struct { StatusCode int; Body []byte; Headers http.Header }\<close>\<close>

type_synonym Header = "string \<rightharpoonup> string list"

record Response =
  resp_StatusCode :: int
  resp_Body :: string
  resp_Headers :: Header

text \<open>The switch of lines 67 to 82: the message for a status code.\<close>

definition defaultErrorMsg :: "int \<Rightarrow> string" where
  "defaultErrorMsg status =
     (if status = 400 then ''Bad Request''
      else if status = 401 then ''Unauthorized''
      else if status = 403 then ''Forbidden''
      else if status = 404 then ''Not Found''
      else if status = 409 then ''Conflict''
      else if status = 500 then ''Internal Server Error''
      else ''HTTP Error '' @ fmt_d status)"

text \<open>
  \<^verbatim>\<open>parseAPIError\<close> (errors.go, lines 51 to 86): the error starts with the status
  code only; a body that is not empty is decoded into it, and when the decoding fails the
  raw body becomes the message; a message still empty is then taken from the switch on
  the status code.
\<close>

definition parseAPIError :: "unmarshal \<Rightarrow> Response \<Rightarrow> error" where
  "parseAPIError um resp =
     (let apiErr0 = \<lparr>StatusCode = resp_StatusCode resp, ErrorCode = [], ErrorMsg = [],
                     Details = []\<rparr>;
          apiErr1 =
            (if length (resp_Body resp) > 0 then
               (case Unmarshal_APIError um (resp_Body resp) apiErr0 of
                  (True, e) \<Rightarrow> e\<lparr>ErrorMsg := resp_Body resp\<rparr>
                | (False, e) \<Rightarrow> e)
             else apiErr0);
          apiErr2 =
            (if ErrorMsg apiErr1 = []
             then apiErr1\<lparr>ErrorMsg := defaultErrorMsg (resp_StatusCode resp)\<rparr>
             else apiErr1)
      in APIErr apiErr2)"

text \<open>\<^verbatim>\<open>AsAPIError\<close> (lines 95 to 98): the type assertion \<^verbatim>\<open>err.(*APIError)\<close>.\<close>

fun AsAPIError :: "error \<Rightarrow> APIError option" where
  "AsAPIError (APIErr e) = Some e"
| "AsAPIError err = None"

subsection \<open>client.go: the client and its construction\<close>

text \<open>
  \<^verbatim>\<open>*http.Client\<close> is known to the model by its \<^verbatim>\<open>Timeout\<close> alone;
  what it does with a request is the round trip of the record \<open>runtime\<close>.
\<close>

record http_Client =
  hc_Timeout :: int

record Client =
  httpClient :: http_Client
  baseURL :: string
  apiURL :: string
  authToken :: string
  contentType :: string
  timeout :: int

record Config =
  BaseURL :: string
  Timeout :: int
  SkipTLSVerify :: bool
  CustomHTTPClient :: "http_Client option"

text \<open>\<^verbatim>\<open>time.Second\<close>, a count of nanoseconds.\<close>

definition time_Second :: int where
  "time_Second = 1000000000"

text \<open>
  \<^verbatim>\<open>strings.TrimSuffix(s, suffix)\<close>: \<open>s\<close> without the trailing \<open>suffix\<close>
  when it ends with it, \<open>s\<close> itself otherwise.
\<close>

definition HasSuffix :: "string \<Rightarrow> string \<Rightarrow> bool" where
  "HasSuffix s suffix =
     (length suffix \<le> length s \<and> drop (length s - length suffix) s = suffix)"

definition TrimSuffix :: "string \<Rightarrow> string \<Rightarrow> string" where
  "TrimSuffix s suffix = (if HasSuffix s suffix then take (length s - length suffix) s else s)"

text \<open>
  Clients live in a store and are known by their address, since a session and its clones
  share one client. The store is the list of the clients allocated so far, an address is
  an index into it, and a pointer is \<open>None\<close> (Go's \<^verbatim>\<open>nil\<close>) or an address.
  Dereferencing \<^verbatim>\<open>nil\<close> panics: the functions that do it return \<open>None\<close> then.
\<close>

type_synonym store = "Client list"

type_synonym Client_ptr = "nat option"

definition deref :: "store \<Rightarrow> Client_ptr \<Rightarrow> Client option" where
  "deref h p =
     (case p of None \<Rightarrow> None
      | Some a \<Rightarrow> if a < length h then Some (h ! a) else None)"

definition alloc :: "store \<Rightarrow> Client \<Rightarrow> store \<times> Client_ptr" where
  "alloc h c = (h @ [c], Some (length h))"

text \<open>
  \<^verbatim>\<open>NewClient\<close> (client.go, lines 36 to 63). The new client is allocated in the
  store; the result is the error, or the store and the pointer.
\<close>

definition NewClient :: "store \<Rightarrow> Config \<Rightarrow> error + store \<times> Client_ptr" where
  "NewClient h cfg =
     (if BaseURL cfg = [] then Inl (ErrorString ''baseURL is required'')
      else
        let base = TrimSuffix (BaseURL cfg) ''/'';
            timeout' = (if Timeout cfg = 0 then 30 * time_Second else Timeout cfg);
            httpClient' =
              (case CustomHTTPClient cfg of
                 None \<Rightarrow> \<lparr>hc_Timeout = timeout'\<rparr>
               | Some hc \<Rightarrow> hc)
        in Inr (alloc h
             \<lparr>httpClient = httpClient',
              baseURL = base,
              apiURL = base @ ''/PasswordVault/API'',
              authToken = [],
              contentType = ''application/json'',
              timeout = timeout'\<rparr>))"

text \<open>
  The methods on \<^verbatim>\<open>*Client\<close> (lines 66 to 83). \<open>SetAuthToken\<close> writes through
  the pointer and returns the store; the getters read through it.
\<close>

definition SetAuthToken :: "store \<Rightarrow> Client_ptr \<Rightarrow> string \<Rightarrow> store option" where
  "SetAuthToken h p token =
     (case deref h p of
        None \<Rightarrow> None
      | Some c \<Rightarrow> Some (h[the p := c\<lparr>authToken := token\<rparr>]))"

definition GetAuthToken :: "store \<Rightarrow> Client_ptr \<Rightarrow> string option" where
  "GetAuthToken h p = map_option authToken (deref h p)"

definition GetBaseURL :: "store \<Rightarrow> Client_ptr \<Rightarrow> string option" where
  "GetBaseURL h p = map_option baseURL (deref h p)"

definition GetAPIURL :: "store \<Rightarrow> Client_ptr \<Rightarrow> string option" where
  "GetAPIURL h p = map_option apiURL (deref h p)"

subsection \<open>client.go: requests\<close>

text \<open>
  \<^verbatim>\<open>type Request struct { Method, Path string; Body interface{}; QueryParams url.Values;
  Headers map[string]string }\<close>. The body is \<open>None\<close> for \<^verbatim>\<open>nil\<close>. The two Go
  maps are association lists, in the order in which the run iterates over them.
\<close>

record 'b Request =
  Method :: string
  Path :: string
  req_Body :: "'b option"
  QueryParams :: "(string \<times> string list) list"
  req_Headers :: "(string \<times> string) list"

text \<open>What the code reads and writes of \<^verbatim>\<open>*http.Request\<close> and \<^verbatim>\<open>*http.Response\<close>.
  The body of the latter is what \<^verbatim>\<open>io.ReadAll\<close> makes of it: an error or the bytes.\<close>

record http_Request =
  hr_Method :: string
  hr_URL :: string
  hr_Body :: "string option"
  hr_Header :: Header

record http_Response =
  hresp_StatusCode :: int
  hresp_Body :: "error + string"
  hresp_Header :: Header

text \<open>
  The standard library and the network, as the code uses them:
  \<^item> \<open>json_Marshal\<close>: \<^verbatim>\<open>json.Marshal\<close>, an error or the bytes;
  \<^item> \<open>Values_Encode\<close>: \<^verbatim>\<open>url.Values.Encode\<close>;
  \<^item> \<open>NewRequest_error\<close>: the error of \<^verbatim>\<open>http.NewRequestWithContext\<close> for a
    method and a URL, \<open>None\<close> when it builds the request;
  \<^item> \<open>CanonicalHeaderKey\<close>: the canonical form under which \<^verbatim>\<open>Header.Set\<close>
    stores a key;
  \<^item> \<open>RoundTrip\<close>: \<^verbatim>\<open>(*http.Client).Do\<close>, a transport error (cancellation and
    timeouts among them) or the response;
  \<^item> \<open>json_Unmarshal\<close>: \<^verbatim>\<open>json.Unmarshal\<close> into an \<^verbatim>\<open>*APIError\<close>.
\<close>

record 'b runtime =
  json_Marshal :: "'b \<Rightarrow> error + string"
  Values_Encode :: "(string \<times> string list) list \<Rightarrow> string"
  NewRequest_error :: "string \<Rightarrow> string \<Rightarrow> error option"
  CanonicalHeaderKey :: "string \<Rightarrow> string"
  RoundTrip :: "http_Client \<Rightarrow> http_Request \<Rightarrow> error + http_Response"
  json_Unmarshal :: unmarshal

text \<open>\<^verbatim>\<open>Header.Set(key, value)\<close>: the canonical key now holds the one value.\<close>

definition Header_Set :: "(string \<Rightarrow> string) \<Rightarrow> Header \<Rightarrow> string \<Rightarrow> string \<Rightarrow> Header" where
  "Header_Set canon h key v = h(canon key \<mapsto> [v])"

text \<open>
  \<^verbatim>\<open>Do\<close>, lines 103 to 134: the request that \<^verbatim>\<open>Do\<close> hands to the transport,
  or the error it returns before any round trip. The URL, the serialised body, the new
  request, the two default headers, then the caller's headers in the order of the
  iteration.
\<close>

definition Do_request :: "'b runtime \<Rightarrow> Client \<Rightarrow> 'b Request \<Rightarrow> error + http_Request" where
  "Do_request rt c req =
     (let url0 = apiURL c @ Path req;
          fullURL =
            (if length (QueryParams req) > 0
             then url0 @ ''?'' @ Values_Encode rt (QueryParams req) else url0);
          marshalled =
            (case req_Body req of
               None \<Rightarrow> Inr None
             | Some b \<Rightarrow>
                 (case json_Marshal rt b of
                    Inl err \<Rightarrow> Inl err
                  | Inr bodyBytes \<Rightarrow> Inr (Some bodyBytes)))
      in case marshalled of
           Inl err \<Rightarrow> Inl (Wrapped ''failed to marshal request body: '' err)
         | Inr bodyReader \<Rightarrow>
             (case NewRequest_error rt (Method req) fullURL of
                Some err \<Rightarrow> Inl (Wrapped ''failed to create request: '' err)
              | None \<Rightarrow>
                  let canon = CanonicalHeaderKey rt;
                      h1 = Header_Set canon Map.empty ''Content-Type'' (contentType c);
                      h2 = (if authToken c \<noteq> []
                            then Header_Set canon h1 ''Authorization'' (authToken c) else h1);
                      h3 = fold (\<lambda>(key, v) h. Header_Set canon h key v) (req_Headers req) h2
                  in Inr \<lparr>hr_Method = Method req, hr_URL = fullURL, hr_Body = bodyReader,
                          hr_Header = h3\<rparr>))"

text \<open>
  \<^verbatim>\<open>Do\<close> (lines 102 to 161) returns a pair \<^verbatim>\<open>(*Response, error)\<close>; each
  component is \<open>None\<close> for \<^verbatim>\<open>nil\<close>.
\<close>

definition Do :: "'b runtime \<Rightarrow> Client \<Rightarrow> 'b Request \<Rightarrow> Response option \<times> error option" where
  "Do rt c req =
     (case Do_request rt c req of
        Inl err \<Rightarrow> (None, Some err)
      | Inr httpReq \<Rightarrow>
          (case RoundTrip rt (httpClient c) httpReq of
             Inl err \<Rightarrow> (None, Some (Wrapped ''failed to execute request: '' err))
           | Inr httpResp \<Rightarrow>
               (case hresp_Body httpResp of
                  Inl err \<Rightarrow> (None, Some (Wrapped ''failed to read response body: '' err))
                | Inr respBody \<Rightarrow>
                    let resp = \<lparr>resp_StatusCode = hresp_StatusCode httpResp,
                                resp_Body = respBody,
                                resp_Headers = hresp_Header httpResp\<rparr>
                    in if hresp_StatusCode httpResp \<ge> 400
                       then (Some resp, Some (parseAPIError (json_Unmarshal rt) resp))
                       else (Some resp, None))))"

subsection \<open>session.go\<close>

text \<open>
  A \<^verbatim>\<open>time.Time\<close> is a count of nanoseconds, 0 for the zero value; what
  \<^verbatim>\<open>time.Now()\<close> returns is an argument of the functions that call it. The lock
  \<^verbatim>\<open>mu\<close> is not part of the model: every method runs from its \<^verbatim>\<open>Lock\<close>
  to its \<^verbatim>\<open>Unlock\<close> as one step.
\<close>

type_synonym Time = int

record Session =
  Client :: Client_ptr
  BaseURI :: string
  APIURI :: string
  User :: string
  ExternalVersion :: string
  StartTime :: Time
  LastCommand :: string
  LastCommandTime :: Time
  LastError :: "error option"
  LastErrorTime :: Time
  IsAuthenticated :: bool
  AuthMethod :: string
  SessionToken :: string
  PrivilegeCloud :: bool

text \<open>
  \<^verbatim>\<open>NewSession\<close> (lines 60 to 76). The outer \<open>None\<close> is a panic, \<open>Inl\<close> the
  returned error.
\<close>

definition NewSession :: "store \<Rightarrow> string \<Rightarrow> Time \<Rightarrow> (error + store \<times> Session) option" where
  "NewSession h baseURI now =
     (case NewClient h \<lparr>BaseURL = baseURI, Timeout = 0, SkipTLSVerify = False,
                         CustomHTTPClient = None\<rparr> of
        Inl err \<Rightarrow> Some (Inl err)
      | Inr (h', c) \<Rightarrow>
          (case GetAPIURL h' c of
             None \<Rightarrow> None
           | Some api \<Rightarrow>
               Some (Inr (h',
                 \<lparr>Client = c, BaseURI = baseURI, APIURI = api, User = [],
                  ExternalVersion = [], StartTime = now, LastCommand = [],
                  LastCommandTime = 0, LastError = None, LastErrorTime = 0,
                  IsAuthenticated = False, AuthMethod = [], SessionToken = [],
                  PrivilegeCloud = False\<rparr>))))"

text \<open>\<^verbatim>\<open>SetAuthenticated\<close> (lines 79 to 88); \<open>None\<close> when the client pointer is nil.\<close>

definition SetAuthenticated ::
  "store \<Rightarrow> Session \<Rightarrow> string \<Rightarrow> string \<Rightarrow> string \<Rightarrow> (store \<times> Session) option" where
  "SetAuthenticated h s user token authMethod =
     (let s' = s\<lparr>User := user, SessionToken := token, AuthMethod := authMethod,
                 IsAuthenticated := True\<rparr>
      in case SetAuthToken h (Client s') token of
           None \<Rightarrow> None
         | Some h' \<Rightarrow> Some (h', s'))"

definition SetVersion :: "Session \<Rightarrow> string \<Rightarrow> Session" where
  "SetVersion s version = s\<lparr>ExternalVersion := version\<rparr>"

definition SetPrivilegeCloud :: "Session \<Rightarrow> bool \<Rightarrow> Session" where
  "SetPrivilegeCloud s isCloud = s\<lparr>PrivilegeCloud := isCloud\<rparr>"

definition UpdateLastCommand :: "Session \<Rightarrow> string \<Rightarrow> Time \<Rightarrow> Session" where
  "UpdateLastCommand s cmd now = s\<lparr>LastCommand := cmd, LastCommandTime := now\<rparr>"

definition UpdateLastError :: "Session \<Rightarrow> error option \<Rightarrow> Time \<Rightarrow> Session" where
  "UpdateLastError s err now = s\<lparr>LastError := err, LastErrorTime := now\<rparr>"

definition GetElapsedTime :: "Session \<Rightarrow> Time \<Rightarrow> int" where
  "GetElapsedTime s now = now - StartTime s"

text \<open>\<^verbatim>\<open>Close\<close> (lines 128 to 133): two assignments to the session, none to the client.\<close>

definition Close :: "Session \<Rightarrow> Session" where
  "Close s = s\<lparr>IsAuthenticated := False, SessionToken := []\<rparr>"

text \<open>
  \<^verbatim>\<open>Clone\<close> (lines 137 to 153): a new session value; the four fields the literal does
  not name are zero.
\<close>

definition Clone :: "Session \<Rightarrow> Session" where
  "Clone s =
     \<lparr>Client = Client s, BaseURI = BaseURI s, APIURI = APIURI s, User = User s,
      ExternalVersion = ExternalVersion s, StartTime = StartTime s, LastCommand = [],
      LastCommandTime = 0, LastError = None, LastErrorTime = 0,
      IsAuthenticated = IsAuthenticated s, AuthMethod = AuthMethod s,
      SessionToken = SessionToken s, PrivilegeCloud = PrivilegeCloud s\<rparr>"

definition IsValid :: "Session \<Rightarrow> bool" where
  "IsValid s = (IsAuthenticated s \<and> SessionToken s \<noteq> [])"

subsection \<open>Sequences of calls on one session\<close>

text \<open>
  The methods of \<^verbatim>\<open>*Session\<close> as calls, and a run of calls on one session and
  the store of clients. The three reading methods leave both as they are. A run stops
  with \<open>None\<close> at a panic.
\<close>

datatype session_call =
    CallSetAuthenticated string string string
  | CallSetVersion string
  | CallSetPrivilegeCloud bool
  | CallUpdateLastCommand string Time
  | CallUpdateLastError "error option" Time
  | CallGetElapsedTime Time
  | CallClose
  | CallClone
  | CallIsValid

fun call :: "session_call \<Rightarrow> store \<times> Session \<Rightarrow> (store \<times> Session) option" where
  "call (CallSetAuthenticated user token authMethod) (h, s) =
     SetAuthenticated h s user token authMethod"
| "call (CallSetVersion version) (h, s) = Some (h, SetVersion s version)"
| "call (CallSetPrivilegeCloud isCloud) (h, s) = Some (h, SetPrivilegeCloud s isCloud)"
| "call (CallUpdateLastCommand cmd now) (h, s) = Some (h, UpdateLastCommand s cmd now)"
| "call (CallUpdateLastError err now) (h, s) = Some (h, UpdateLastError s err now)"
| "call (CallGetElapsedTime now) (h, s) = Some (h, s)"
| "call CallClose (h, s) = Some (h, Close s)"
| "call CallClone (h, s) = Some (h, s)"
| "call CallIsValid (h, s) = Some (h, s)"

fun calls :: "session_call list \<Rightarrow> store \<times> Session \<Rightarrow> (store \<times> Session) option" where
  "calls [] w = Some w"
| "calls (c # cs) w = (case call c w of None \<Rightarrow> None | Some w' \<Rightarrow> calls cs w')"

text \<open>
  The specification's condition on a run, in its words: \<^verbatim>\<open>SetAuthenticated\<close> was
  called after construction or after the most recent \<^verbatim>\<open>Close\<close>. Reading the run
  from its start, a call of \<^verbatim>\<open>SetAuthenticated\<close> makes it true, a call of
  \<^verbatim>\<open>Close\<close> makes it false, any other call leaves it.
\<close>

fun spec_authenticated_step :: "bool \<Rightarrow> session_call \<Rightarrow> bool" where
  "spec_authenticated_step b (CallSetAuthenticated user token authMethod) = True"
| "spec_authenticated_step b CallClose = False"
| "spec_authenticated_step b c = b"

definition spec_authenticated_since_close :: "session_call list \<Rightarrow> bool" where
  "spec_authenticated_since_close cs = foldl spec_authenticated_step False cs"

text \<open>
  The same condition with the token looked at: the latest call among
  \<^verbatim>\<open>SetAuthenticated\<close> and \<^verbatim>\<open>Close\<close> is a \<^verbatim>\<open>SetAuthenticated\<close>
  whose token is not empty.
\<close>

fun token_step :: "bool \<Rightarrow> session_call \<Rightarrow> bool" where
  "token_step b (CallSetAuthenticated user token authMethod) = (token \<noteq> [])"
| "token_step b CallClose = False"
| "token_step b c = b"

definition token_set_since_close :: "session_call list \<Rightarrow> bool" where
  "token_set_since_close cs = foldl token_step False cs"

fun is_SetAuthenticated :: "session_call \<Rightarrow> bool" where
  "is_SetAuthenticated (CallSetAuthenticated user token authMethod) = True"
| "is_SetAuthenticated c = False"

subsection \<open>A concrete runtime\<close>

text \<open>
  \<^verbatim>\<open>textproto.CanonicalMIMEHeaderKey\<close>, which \<^verbatim>\<open>Header.Set\<close> applies to the
  key: a key made of token bytes only gets an upper-case letter first and after each
  hyphen and lower-case letters elsewhere; any other key is left as it is.
\<close>

definition isLower :: "char \<Rightarrow> bool" where
  "isLower c = (97 \<le> (of_char c :: nat) \<and> (of_char c :: nat) \<le> 122)"

definition isUpper :: "char \<Rightarrow> bool" where
  "isUpper c = (65 \<le> (of_char c :: nat) \<and> (of_char c :: nat) \<le> 90)"

definition isDigit :: "char \<Rightarrow> bool" where
  "isDigit c = (48 \<le> (of_char c :: nat) \<and> (of_char c :: nat) \<le> 57)"

definition validHeaderFieldByte :: "char \<Rightarrow> bool" where
  "validHeaderFieldByte c =
     (isLower c \<or> isUpper c \<or> isDigit c \<or>
      (of_char c :: nat) \<in> set [33, 35, 36, 37, 38, 39, 42, 43, 45, 46, 94, 95, 96, 124, 126])"

fun canonical_bytes :: "bool \<Rightarrow> string \<Rightarrow> string" where
  "canonical_bytes upper [] = []"
| "canonical_bytes upper (c # cs) =
     (let c' = (if upper \<and> isLower c then char_of ((of_char c :: nat) - 32)
                else if \<not> upper \<and> isUpper c then char_of ((of_char c :: nat) + 32)
                else c)
      in c' # canonical_bytes (c' = CHR ''-'') cs)"

definition CanonicalMIMEHeaderKey :: "string \<Rightarrow> string" where
  "CanonicalMIMEHeaderKey s =
     (if list_all validHeaderFieldByte s then canonical_bytes True s else s)"

text \<open>
  \<^verbatim>\<open>encoding/json\<close> scans its input before it decodes anything: past the white
  space, a byte that cannot begin a JSON value (a brace, a bracket, a quote, a minus
  sign, a digit, or the first letter of true, false and null) is a syntax error, and the
  target is left untouched. The decoder below makes this one check and decodes no field. It stands for
  \<^verbatim>\<open>json.Unmarshal\<close> on the bodies it rejects and on those that hold none of the
  fields of the error, as \<^verbatim>\<open>{}\<close>; it is used at such bodies only.
\<close>

definition json_space :: "char \<Rightarrow> bool" where
  "json_space c = ((of_char c :: nat) \<in> set [32, 9, 13, 10])"

definition json_value_start :: "char \<Rightarrow> bool" where
  "json_value_start c =
     (isDigit c \<or> (of_char c :: nat) \<in> set [123, 91, 34, 45, 116, 102, 110])"

definition syntax_check_Unmarshal :: unmarshal where
  "syntax_check_Unmarshal b target =
     (case dropWhile json_space b of
        [] \<Rightarrow> (True, target)
      | c # rest \<Rightarrow> (\<not> json_value_start c, target))"

text \<open>
  The runtime of a test against a mock server, as those of \<^verbatim>\<open>client_test.go\<close>:
  whatever the request, the server answers with one status and one body, which is read
  without error. Request bodies are the empty struct, which \<^verbatim>\<open>json.Marshal\<close>
  encodes as \<^verbatim>\<open>{}\<close>; the requests carry no query parameters, for which
  \<^verbatim>\<open>Encode\<close> gives the empty string; every request is built without error.
\<close>

definition mock_server :: "int \<Rightarrow> string \<Rightarrow> unit runtime" where
  "mock_server status body =
     \<lparr>json_Marshal = (\<lambda>b. Inr ''{}''),
      Values_Encode = (\<lambda>q. []),
      NewRequest_error = (\<lambda>m u. None),
      CanonicalHeaderKey = CanonicalMIMEHeaderKey,
      RoundTrip = (\<lambda>hc r. Inr \<lparr>hresp_StatusCode = status, hresp_Body = Inr body,
                                hresp_Header = Map.empty\<rparr>),
      json_Unmarshal = syntax_check_Unmarshal\<rparr>"

text \<open>A run from \<^verbatim>\<open>NewSession\<close>: \<open>None\<close> when the construction fails or a call panics.\<close>

definition session_run ::
  "store \<Rightarrow> string \<Rightarrow> Time \<Rightarrow> session_call list \<Rightarrow> (store \<times> Session) option" where
  "session_run h baseURI now cs =
     (case NewSession h baseURI now of
        Some (Inr w) \<Rightarrow> calls cs w
      | Some (Inl err) \<Rightarrow> None
      | None \<Rightarrow> None)"

text \<open>
  Values for the examples: the client that \<^verbatim>\<open>NewClient\<close> makes for
  \<^verbatim>\<open>https://host\<close>, holding a token; the session of \<^verbatim>\<open>NewSession\<close> for the
  same address at time 1, its client at address 0; a request for \<^verbatim>\<open>/Accounts\<close> with
  the caller's headers.
\<close>

definition host_client :: "string \<Rightarrow> Client" where
  "host_client token =
     \<lparr>httpClient = \<lparr>hc_Timeout = 30000000000\<rparr>,
      baseURL = ''https://host'',
      apiURL = ''https://host/PasswordVault/API'',
      authToken = token,
      contentType = ''application/json'',
      timeout = 30000000000\<rparr>"

definition host_session :: Session where
  "host_session =
     \<lparr>Client = Some 0, BaseURI = ''https://host'',
      APIURI = ''https://host/PasswordVault/API'', User = [], ExternalVersion = [],
      StartTime = 1, LastCommand = [], LastCommandTime = 0, LastError = None,
      LastErrorTime = 0, IsAuthenticated = False, AuthMethod = [], SessionToken = [],
      PrivilegeCloud = False\<rparr>"

definition get_accounts :: "(string \<times> string) list \<Rightarrow> unit Request" where
  "get_accounts hs =
     \<lparr>Method = ''GET'', Path = ''/Accounts'', req_Body = None, QueryParams = [],
      req_Headers = hs\<rparr>"

section \<open>Properties\<close>

subsection \<open>Facts shared by the proofs\<close>

lemma fmt_d_502: "fmt_d 502 = ''502''"
  by code_simp

lemma syntax_check_html:
  "syntax_check_Unmarshal ''<html>'' t = (True, t)"
  by (simp add: syntax_check_Unmarshal_def json_space_def json_value_start_def isDigit_def)

lemma syntax_check_braces:
  "syntax_check_Unmarshal ''{}'' t = (False, t)"
  by (simp add: syntax_check_Unmarshal_def json_space_def json_value_start_def isDigit_def)

lemma TrimSuffix_slash:
  "u \<noteq> [] \<Longrightarrow> TrimSuffix u ''/'' = (if last u = CHR ''/'' then butlast u else u)"
proof (cases u rule: rev_cases)
  case Nil
  assume "u \<noteq> []"
  with Nil show ?thesis by simp
next
  case (snoc ys y)
  then show ?thesis by (simp add: TrimSuffix_def HasSuffix_def)
qed

lemma deref_alloc: "alloc h c = (h', p) \<Longrightarrow> deref h' p = Some c"
  by (auto simp: alloc_def deref_def)

lemma NewClient_nonempty:
  assumes "BaseURL cfg \<noteq> []"
  shows "\<exists>h' p c. NewClient h cfg = Inr (h', p) \<and> deref h' p = Some c \<and>
           baseURL c = TrimSuffix (BaseURL cfg) ''/'' \<and>
           apiURL c = TrimSuffix (BaseURL cfg) ''/'' @ ''/PasswordVault/API'' \<and>
           authToken c = [] \<and> h' = h @ [c] \<and> p = Some (length h)"
  using assms by (simp add: NewClient_def Let_def alloc_def deref_def)

lemma AsAPIError_parseAPIError:
  "\<exists>e. parseAPIError um resp = APIErr e \<and> StatusCode e = resp_StatusCode resp"
  by (auto simp: parseAPIError_def Let_def Unmarshal_APIError_def split: prod.splits bool.splits)

lemma SetAuthToken_deref:
  assumes "deref h p = Some c"
  shows "\<exists>h'. SetAuthToken h p token = Some h' \<and> length h' = length h \<and>
           deref h' p = Some (c\<lparr>authToken := token\<rparr>)"
  using assms by (auto simp: SetAuthToken_def deref_def split: option.splits if_splits)

lemma SetAuthenticated_deref:
  assumes "deref h (Client s) = Some c"
  shows "\<exists>h'. SetAuthenticated h s user token authMethod =
             Some (h', s\<lparr>User := user, SessionToken := token, AuthMethod := authMethod,
                         IsAuthenticated := True\<rparr>) \<and>
           deref h' (Client s) = Some (c\<lparr>authToken := token\<rparr>)"
proof -
  from SetAuthToken_deref [OF assms, of token] obtain h' where
    "SetAuthToken h (Client s) token = Some h'"
    "deref h' (Client s) = Some (c\<lparr>authToken := token\<rparr>)" by blast
  then show ?thesis by (simp add: SetAuthenticated_def)
qed

lemma call_keeps_client:
  assumes "deref h (Client s) = Some c"
  shows "\<exists>h' s' c'. call k (h, s) = Some (h', s') \<and> Client s' = Client s \<and>
           deref h' (Client s') = Some c' \<and>
           IsValid s' = token_step (IsValid s) k \<and>
           authToken c' = (case k of CallSetAuthenticated u t m \<Rightarrow> t | _ \<Rightarrow> authToken c)"
proof (cases k)
  case (CallSetAuthenticated user token authMethod)
  from SetAuthenticated_deref [OF assms, of user token authMethod] obtain h' where
    "SetAuthenticated h s user token authMethod =
       Some (h', s\<lparr>User := user, SessionToken := token, AuthMethod := authMethod,
                   IsAuthenticated := True\<rparr>)"
    "deref h' (Client s) = Some (c\<lparr>authToken := token\<rparr>)" by blast
  with CallSetAuthenticated show ?thesis by (simp add: IsValid_def)
qed (use assms in \<open>simp_all add: IsValid_def SetVersion_def SetPrivilegeCloud_def
      UpdateLastCommand_def UpdateLastError_def Close_def\<close>)

lemma calls_keep_client:
  assumes "deref h (Client s) = Some c"
  shows "\<exists>h' s' c'. calls ks (h, s) = Some (h', s') \<and> Client s' = Client s \<and>
           deref h' (Client s') = Some c' \<and>
           IsValid s' = foldl token_step (IsValid s) ks \<and>
           (\<not> list_ex is_SetAuthenticated ks \<longrightarrow> authToken c' = authToken c)"
  using assms
proof (induction ks arbitrary: h s c)
  case Nil
  then show ?case by simp
next
  case (Cons k ks)
  from call_keeps_client [OF Cons.prems, of k] obtain h1 s1 c1 where
    k: "call k (h, s) = Some (h1, s1)" and p: "Client s1 = Client s" and
    d: "deref h1 (Client s1) = Some c1" and v: "IsValid s1 = token_step (IsValid s) k" and
    t: "authToken c1 = (case k of CallSetAuthenticated u t m \<Rightarrow> t | _ \<Rightarrow> authToken c)"
    by blast
  from Cons.IH [OF d] obtain h' s' c' where
    r: "calls ks (h1, s1) = Some (h', s')" "Client s' = Client s1"
      "deref h' (Client s') = Some c'" "IsValid s' = foldl token_step (IsValid s1) ks"
      "\<not> list_ex is_SetAuthenticated ks \<longrightarrow> authToken c' = authToken c1"
    by blast
  have "\<not> is_SetAuthenticated k \<Longrightarrow> authToken c1 = authToken c"
    using t by (cases k) simp_all
  with k p v r show ?case by auto
qed

lemma NewSession_nonempty:
  assumes "baseURI \<noteq> []"
  shows "\<exists>h' s c. NewSession h baseURI now = Some (Inr (h', s)) \<and>
           deref h' (Client s) = Some c \<and> \<not> IsAuthenticated s \<and> SessionToken s = [] \<and>
           BaseURI s = baseURI \<and> APIURI s = apiURL c \<and> authToken c = []"
proof -
  let ?cfg = "\<lparr>BaseURL = baseURI, Timeout = 0, SkipTLSVerify = False,
               CustomHTTPClient = None\<rparr>"
  from assms have ne: "BaseURL ?cfg \<noteq> []" by simp
  from NewClient_nonempty [OF ne, of h] obtain h' p c where
    "NewClient h ?cfg = Inr (h', p)" "deref h' p = Some c" "authToken c = []"
    by blast
  then show ?thesis by (simp add: NewSession_def GetAPIURL_def)
qed

lemma calls_append:
  "calls (ks @ ks') w = (case calls ks w of None \<Rightarrow> None | Some w' \<Rightarrow> calls ks' w')"
  by (induction ks arbitrary: w) (auto split: option.splits)

lemma host_session_new:
  "NewSession [] ''https://host'' 1 = Some (Inr ([host_client []], host_session))"
  by (simp add: NewSession_def NewClient_def TrimSuffix_def HasSuffix_def alloc_def
      GetAPIURL_def deref_def host_client_def host_session_def time_Second_def)

lemma fold_Header_Set_other:
  assumes "\<forall>(k, v) \<in> set hs. canon k \<noteq> key"
  shows "fold (\<lambda>(k, v) h. Header_Set canon h k v) hs h key = h key"
  using assms by (induction hs arbitrary: h) (auto simp: Header_Set_def)

lemma Do_request_Header:
  assumes "Do_request rt c req = Inr httpReq"
  shows "hr_Header httpReq =
           fold (\<lambda>(k, v) h. Header_Set (CanonicalHeaderKey rt) h k v) (req_Headers req)
             (if authToken c \<noteq> []
              then Header_Set (CanonicalHeaderKey rt)
                     (Header_Set (CanonicalHeaderKey rt) Map.empty ''Content-Type'' (contentType c))
                     ''Authorization'' (authToken c)
              else Header_Set (CanonicalHeaderKey rt) Map.empty ''Content-Type'' (contentType c))"
  using assms
  by (auto simp: Do_request_def Let_def split: option.splits sum.splits if_splits)

lemma Do_request_token_attached:
  assumes "Do_request rt c req = Inr httpReq"
    and "\<forall>(k, v) \<in> set (req_Headers req).
           CanonicalHeaderKey rt k \<noteq> CanonicalHeaderKey rt ''Authorization''"
    and "authToken c \<noteq> []"
  shows "hr_Header httpReq (CanonicalHeaderKey rt ''Authorization'') = Some [authToken c]"
  using assms(3) fold_Header_Set_other [OF assms(2)]
  by (simp add: Do_request_Header [OF assms(1)] Header_Set_def)

lemma canonical_Authorization: "CanonicalMIMEHeaderKey ''Authorization'' = ''Authorization''"
  by code_simp

lemma canonical_Content_Type: "CanonicalMIMEHeaderKey ''Content-Type'' = ''Content-Type''"
  by code_simp


lemma mock_Do_request:
  "Do_request (mock_server status body) c (get_accounts hs) =
     Inr \<lparr>hr_Method = ''GET'', hr_URL = apiURL c @ ''/Accounts'', hr_Body = None,
          hr_Header =
            fold (\<lambda>(k, v) h. Header_Set CanonicalMIMEHeaderKey h k v) hs
              (if authToken c \<noteq> []
               then [''Content-Type'' \<mapsto> [contentType c], ''Authorization'' \<mapsto> [authToken c]]
               else [''Content-Type'' \<mapsto> [contentType c]])\<rparr>"
  by (simp add: Do_request_def mock_server_def get_accounts_def Header_Set_def
      canonical_Authorization canonical_Content_Type)

subsection \<open>Error classification\<close>

text \<open>
  Claim C1, amended. For every response with status at least 400: when the body is
  empty, or is decoded without error and brings no message, the API error of
  \<^verbatim>\<open>parseAPIError\<close> carries the message of the default table for the status code
  (400 Bad Request, 401 Unauthorized, 403 Forbidden, 404 Not Found, 409 Conflict, 500
  Internal Server Error, and "HTTP Error N" for any other status N); when the body is not
  empty and \<^verbatim>\<open>json.Unmarshal\<close> rejects it, the message is the raw body itself, not
  an entry of the table.
\<close>

theorem parseAPIError_message:
  assumes "400 \<le> resp_StatusCode resp"
  shows "(resp_Body resp = [] \<longrightarrow>
            AsAPIError (parseAPIError um resp) =
              Some \<lparr>StatusCode = resp_StatusCode resp, ErrorCode = [],
                    ErrorMsg = defaultErrorMsg (resp_StatusCode resp), Details = []\<rparr>) \<and>
         (resp_Body resp \<noteq> [] \<and>
          um (resp_Body resp)
             \<lparr>StatusCode = resp_StatusCode resp, ErrorCode = [], ErrorMsg = [],
              Details = []\<rparr> = (False, decoded) \<and>
          ErrorMsg decoded = [] \<longrightarrow>
            map_option ErrorMsg (AsAPIError (parseAPIError um resp)) =
              Some (defaultErrorMsg (resp_StatusCode resp))) \<and>
         (resp_Body resp \<noteq> [] \<and>
          fst (um (resp_Body resp)
                 \<lparr>StatusCode = resp_StatusCode resp, ErrorCode = [], ErrorMsg = [],
                  Details = []\<rparr>) \<longrightarrow>
            map_option ErrorMsg (AsAPIError (parseAPIError um resp)) = Some (resp_Body resp)) \<and>
         defaultErrorMsg 400 = ''Bad Request'' \<and>
         defaultErrorMsg 401 = ''Unauthorized'' \<and>
         defaultErrorMsg 403 = ''Forbidden'' \<and>
         defaultErrorMsg 404 = ''Not Found'' \<and>
         defaultErrorMsg 409 = ''Conflict'' \<and>
         defaultErrorMsg 500 = ''Internal Server Error'' \<and>
         (resp_StatusCode resp \<notin> {400, 401, 403, 404, 409, 500} \<longrightarrow>
            defaultErrorMsg (resp_StatusCode resp) = ''HTTP Error '' @ fmt_d (resp_StatusCode resp))"
proof -
  let ?e0 = "\<lparr>StatusCode = resp_StatusCode resp, ErrorCode = [], ErrorMsg = [],
              Details = []\<rparr>"
  have empty: "resp_Body resp = [] \<Longrightarrow>
      AsAPIError (parseAPIError um resp) =
        Some \<lparr>StatusCode = resp_StatusCode resp, ErrorCode = [],
              ErrorMsg = defaultErrorMsg (resp_StatusCode resp), Details = []\<rparr>"
    by (simp add: parseAPIError_def)
  have silent: "resp_Body resp \<noteq> [] \<Longrightarrow> um (resp_Body resp) ?e0 = (False, decoded) \<Longrightarrow>
      ErrorMsg decoded = [] \<Longrightarrow>
      map_option ErrorMsg (AsAPIError (parseAPIError um resp)) =
        Some (defaultErrorMsg (resp_StatusCode resp))"
    by (simp add: parseAPIError_def Unmarshal_APIError_def)
  have raw: "resp_Body resp \<noteq> [] \<Longrightarrow> fst (um (resp_Body resp) ?e0) \<Longrightarrow>
      map_option ErrorMsg (AsAPIError (parseAPIError um resp)) = Some (resp_Body resp)"
    by (auto simp: parseAPIError_def Unmarshal_APIError_def Let_def split: prod.splits bool.splits)
  have table: "defaultErrorMsg 400 = ''Bad Request''" "defaultErrorMsg 401 = ''Unauthorized''"
    "defaultErrorMsg 403 = ''Forbidden''" "defaultErrorMsg 404 = ''Not Found''"
    "defaultErrorMsg 409 = ''Conflict''" "defaultErrorMsg 500 = ''Internal Server Error''"
    by (simp_all add: defaultErrorMsg_def)
  have other: "resp_StatusCode resp \<notin> {400, 401, 403, 404, 409, 500} \<Longrightarrow>
      defaultErrorMsg (resp_StatusCode resp) = ''HTTP Error '' @ fmt_d (resp_StatusCode resp)"
    by (simp add: defaultErrorMsg_def)
  from empty silent raw table other show ?thesis by blast
qed

text \<open>
  Witness for C1: an empty 404 and an empty 502 get the table's messages, so does a 404
  whose body is \<^verbatim>\<open>{}\<close>, and a 502 whose body is an HTML page gets the page as its
  message.
\<close>

theorem parseAPIError_message_witness:
  "AsAPIError (parseAPIError syntax_check_Unmarshal
       \<lparr>resp_StatusCode = 404, resp_Body = [], resp_Headers = Map.empty\<rparr>) =
     Some \<lparr>StatusCode = 404, ErrorCode = [], ErrorMsg = ''Not Found'', Details = []\<rparr> \<and>
   AsAPIError (parseAPIError syntax_check_Unmarshal
       \<lparr>resp_StatusCode = 502, resp_Body = [], resp_Headers = Map.empty\<rparr>) =
     Some \<lparr>StatusCode = 502, ErrorCode = [], ErrorMsg = ''HTTP Error 502'', Details = []\<rparr> \<and>
   map_option ErrorMsg (AsAPIError (parseAPIError syntax_check_Unmarshal
       \<lparr>resp_StatusCode = 404, resp_Body = ''{}'', resp_Headers = Map.empty\<rparr>)) =
     Some ''Not Found'' \<and>
   map_option ErrorMsg (AsAPIError (parseAPIError syntax_check_Unmarshal
       \<lparr>resp_StatusCode = 502, resp_Body = ''<html>'', resp_Headers = Map.empty\<rparr>)) =
     Some ''<html>''"
  using parseAPIError_message [of "\<lparr>resp_StatusCode = 404, resp_Body = [], resp_Headers = Map.empty\<rparr>"
      syntax_check_Unmarshal]
    parseAPIError_message [of "\<lparr>resp_StatusCode = 502, resp_Body = [], resp_Headers = Map.empty\<rparr>"
      syntax_check_Unmarshal]
    parseAPIError_message [of "\<lparr>resp_StatusCode = 404, resp_Body = ''{}'', resp_Headers = Map.empty\<rparr>"
      syntax_check_Unmarshal
      "\<lparr>StatusCode = 404, ErrorCode = [], ErrorMsg = [], Details = []\<rparr>"]
    parseAPIError_message [of "\<lparr>resp_StatusCode = 502, resp_Body = ''<html>'', resp_Headers = Map.empty\<rparr>"
      syntax_check_Unmarshal]
  by (simp add: fmt_d_502 syntax_check_html syntax_check_braces)

text \<open>
  Counterexample to C1 as first stated: status 502 with the body \<^verbatim>\<open><html>\<close>, which
  is not JSON. The decoding fails, the message is the body, and the table's entry for 502
  is another string.
\<close>

theorem parseAPIError_unparseable_body_counterexample:
  "fst (syntax_check_Unmarshal ''<html>''
         \<lparr>StatusCode = 502, ErrorCode = [], ErrorMsg = [], Details = []\<rparr>) \<and>
   map_option ErrorMsg (AsAPIError (parseAPIError syntax_check_Unmarshal
       \<lparr>resp_StatusCode = 502, resp_Body = ''<html>'', resp_Headers = Map.empty\<rparr>)) =
     Some ''<html>'' \<and>
   defaultErrorMsg 502 = ''HTTP Error 502'' \<and>
   ''<html>'' \<noteq> defaultErrorMsg 502"
  by (simp add: parseAPIError_def Unmarshal_APIError_def syntax_check_html defaultErrorMsg_def
      fmt_d_502)

subsection \<open>Construction of the client\<close>

text \<open>
  Claim C4. For every base URL that is not empty, \<^verbatim>\<open>NewClient\<close> succeeds; the
  client's base URL is the given one without its last byte when that byte is a slash (one
  slash only is removed) and the given one otherwise; the API URL is this base URL followed
  by \<^verbatim>\<open>/PasswordVault/API\<close>. For the empty base URL \<^verbatim>\<open>NewClient\<close> fails
  with the error "baseURL is required".
\<close>

theorem NewClient_base_and_api_url:
  "(BaseURL cfg \<noteq> [] \<longrightarrow>
      (\<exists>h' p c. NewClient h cfg = Inr (h', p) \<and> deref h' p = Some c \<and>
         baseURL c = (if last (BaseURL cfg) = CHR ''/'' then butlast (BaseURL cfg)
                      else BaseURL cfg) \<and>
         apiURL c = baseURL c @ ''/PasswordVault/API'' \<and>
         GetBaseURL h' p = Some (baseURL c) \<and> GetAPIURL h' p = Some (apiURL c))) \<and>
   (BaseURL cfg = [] \<longrightarrow> NewClient h cfg = Inl (ErrorString ''baseURL is required''))"
proof (intro conjI impI)
  assume ne: "BaseURL cfg \<noteq> []"
  from NewClient_nonempty [OF ne, of h] obtain h' p c where
    nc: "NewClient h cfg = Inr (h', p)" and d: "deref h' p = Some c" and
    b: "baseURL c = TrimSuffix (BaseURL cfg) ''/''" and
    a: "apiURL c = TrimSuffix (BaseURL cfg) ''/'' @ ''/PasswordVault/API''"
    by blast
  from b have b': "baseURL c = (if last (BaseURL cfg) = CHR ''/'' then butlast (BaseURL cfg)
                      else BaseURL cfg)"
    by (simp only: TrimSuffix_slash [OF ne])
  from a b have a': "apiURL c = baseURL c @ ''/PasswordVault/API''" by simp
  from d have g: "GetBaseURL h' p = Some (baseURL c)" "GetAPIURL h' p = Some (apiURL c)"
    by (simp_all add: GetBaseURL_def GetAPIURL_def)
  from nc d b' a' g show "\<exists>h' p c. NewClient h cfg = Inr (h', p) \<and> deref h' p = Some c \<and>
         baseURL c = (if last (BaseURL cfg) = CHR ''/'' then butlast (BaseURL cfg)
                      else BaseURL cfg) \<and>
         apiURL c = baseURL c @ ''/PasswordVault/API'' \<and>
         GetBaseURL h' p = Some (baseURL c) \<and> GetAPIURL h' p = Some (apiURL c)"
    by blast
next
  assume "BaseURL cfg = []"
  then show "NewClient h cfg = Inl (ErrorString ''baseURL is required'')"
    by (simp add: NewClient_def)
qed

text \<open>
  Witness for C4: of two trailing slashes one is left, a URL without one is kept, and the
  empty URL is refused.
\<close>

theorem NewClient_base_and_api_url_witness:
  "map_sum id (\<lambda>(h', p). (GetBaseURL h' p, GetAPIURL h' p))
     (NewClient [] \<lparr>BaseURL = ''https://host//'', Timeout = 0, SkipTLSVerify = False,
        CustomHTTPClient = None\<rparr>) =
     Inr (Some ''https://host/'', Some ''https://host//PasswordVault/API'') \<and>
   map_sum id (\<lambda>(h', p). (GetBaseURL h' p, GetAPIURL h' p))
     (NewClient [] \<lparr>BaseURL = ''https://host'', Timeout = 0, SkipTLSVerify = False,
        CustomHTTPClient = None\<rparr>) =
     Inr (Some ''https://host'', Some ''https://host/PasswordVault/API'') \<and>
   NewClient [] \<lparr>BaseURL = [], Timeout = 0, SkipTLSVerify = False, CustomHTTPClient = None\<rparr> =
     Inl (ErrorString ''baseURL is required'')"
  using NewClient_base_and_api_url [of "\<lparr>BaseURL = ''https://host//'', Timeout = 0,
      SkipTLSVerify = False, CustomHTTPClient = None\<rparr>" "[]"]
    NewClient_base_and_api_url [of "\<lparr>BaseURL = ''https://host'', Timeout = 0,
      SkipTLSVerify = False, CustomHTTPClient = None\<rparr>" "[]"]
    NewClient_base_and_api_url [of "\<lparr>BaseURL = [], Timeout = 0,
      SkipTLSVerify = False, CustomHTTPClient = None\<rparr>" "[]"]
  by auto

subsection \<open>The session\<close>

text \<open>
  Claim C7. After \<^verbatim>\<open>Close\<close> the authenticated flag is false and the session
  token is empty (so the session is not valid), and every other field of the session,
  \<^verbatim>\<open>User\<close> and \<^verbatim>\<open>AuthMethod\<close> among them, is as it was; the store of
  clients is as it was too. This holds for every session, authenticated or not.
\<close>

theorem Close_frame:
  "IsAuthenticated (Close s) = False \<and> SessionToken (Close s) = [] \<and>
   \<not> IsValid (Close s) \<and>
   User (Close s) = User s \<and> AuthMethod (Close s) = AuthMethod s \<and>
   Client (Close s) = Client s \<and> BaseURI (Close s) = BaseURI s \<and>
   APIURI (Close s) = APIURI s \<and> ExternalVersion (Close s) = ExternalVersion s \<and>
   StartTime (Close s) = StartTime s \<and> LastCommand (Close s) = LastCommand s \<and>
   LastCommandTime (Close s) = LastCommandTime s \<and> LastError (Close s) = LastError s \<and>
   LastErrorTime (Close s) = LastErrorTime s \<and> PrivilegeCloud (Close s) = PrivilegeCloud s \<and>
   call CallClose (h, s) = Some (h, Close s)"
  by (simp add: Close_def IsValid_def)

text \<open>
  Claim C8. For every session, \<^verbatim>\<open>Clone\<close> gives a session with the same
  \<^verbatim>\<open>User\<close>, \<^verbatim>\<open>SessionToken\<close>, \<^verbatim>\<open>AuthMethod\<close>,
  \<^verbatim>\<open>IsAuthenticated\<close>, \<^verbatim>\<open>PrivilegeCloud\<close> and \<^verbatim>\<open>APIURI\<close>, the
  same client pointer (so the same client in every store), and an empty
  \<^verbatim>\<open>LastCommand\<close>, also right after \<^verbatim>\<open>UpdateLastCommand\<close> has set one.
\<close>

theorem Clone_fields:
  "User (Clone s) = User s \<and> SessionToken (Clone s) = SessionToken s \<and>
   AuthMethod (Clone s) = AuthMethod s \<and> IsAuthenticated (Clone s) = IsAuthenticated s \<and>
   PrivilegeCloud (Clone s) = PrivilegeCloud s \<and> APIURI (Clone s) = APIURI s \<and>
   Client (Clone s) = Client s \<and> deref h (Client (Clone s)) = deref h (Client s) \<and>
   LastCommand (Clone s) = [] \<and>
   LastCommand (Clone (UpdateLastCommand s cmd now)) = []"
  by (simp add: Clone_def UpdateLastCommand_def)

text \<open>
  Claim C10. For a base URI that ends with a slash, \<^verbatim>\<open>NewSession\<close> succeeds; the
  session's \<^verbatim>\<open>BaseURI\<close> is the given string, its client's
  \<^verbatim>\<open>GetBaseURL()\<close> is the string without the slash, so the two differ, and the
  session's \<^verbatim>\<open>APIURI\<close> is the client's \<^verbatim>\<open>GetAPIURL()\<close>, made from the
  trimmed base.
\<close>

theorem NewSession_keeps_untrimmed_base:
  assumes "baseURI = u @ ''/''"
  shows "\<exists>h' s. NewSession h baseURI now = Some (Inr (h', s)) \<and>
           BaseURI s = baseURI \<and> GetBaseURL h' (Client s) = Some u \<and>
           Some (BaseURI s) \<noteq> GetBaseURL h' (Client s) \<and>
           GetAPIURL h' (Client s) = Some (APIURI s) \<and>
           APIURI s = u @ ''/PasswordVault/API''"
proof -
  let ?cfg = "\<lparr>BaseURL = baseURI, Timeout = 0, SkipTLSVerify = False,
               CustomHTTPClient = None\<rparr>"
  from assms have ne: "BaseURL ?cfg \<noteq> []" by simp
  from NewClient_nonempty [OF ne, of h] obtain h' p c where
    nc: "NewClient h ?cfg = Inr (h', p)" and d: "deref h' p = Some c" and
    b: "baseURL c = TrimSuffix (BaseURL ?cfg) ''/''" and
    a: "apiURL c = TrimSuffix (BaseURL ?cfg) ''/'' @ ''/PasswordVault/API''"
    by blast
  from assms have t: "TrimSuffix (BaseURL ?cfg) ''/'' = u"
    by (simp add: TrimSuffix_def HasSuffix_def)
  from nc d a b t show ?thesis
    using assms by (simp add: NewSession_def GetAPIURL_def GetBaseURL_def)
qed

text \<open>Witness for C10: the base URI \<^verbatim>\<open>https://host/\<close>.\<close>

theorem NewSession_keeps_untrimmed_base_witness:
  "''https://host/'' = ''https://host'' @ ''/'' \<and>
   (\<exists>h' s. NewSession [] ''https://host/'' 1 = Some (Inr (h', s)) \<and>
           BaseURI s = ''https://host/'' \<and> GetBaseURL h' (Client s) = Some ''https://host'' \<and>
           Some (BaseURI s) \<noteq> GetBaseURL h' (Client s) \<and>
           GetAPIURL h' (Client s) = Some (APIURI s) \<and>
           APIURI s = ''https://host'' @ ''/PasswordVault/API'')"
proof -
  have h: "''https://host/'' = ''https://host'' @ ''/''" by simp
  from NewSession_keeps_untrimmed_base [OF h, of "[]" 1] h show ?thesis by blast
qed

text \<open>
  Claim C6. For every user, token and authentication method, on a session whose client
  pointer is valid, \<^verbatim>\<open>SetAuthenticated\<close> returns; afterwards the session's
  \<^verbatim>\<open>User\<close>, \<^verbatim>\<open>SessionToken\<close> and \<^verbatim>\<open>AuthMethod\<close> are the
  arguments, the authenticated flag is true, and the client's \<^verbatim>\<open>GetAuthToken()\<close>
  is that token, the same as the session's.
\<close>

theorem SetAuthenticated_sets_session_and_client:
  assumes "deref h (Client s) = Some c"
  shows "\<exists>h' s'. SetAuthenticated h s user token authMethod = Some (h', s') \<and>
           User s' = user \<and> SessionToken s' = token \<and> AuthMethod s' = authMethod \<and>
           IsAuthenticated s' \<and> GetAuthToken h' (Client s') = Some token \<and>
           GetAuthToken h' (Client s') = Some (SessionToken s')"
  using SetAuthenticated_deref [OF assms, of user token authMethod]
  by (auto simp: GetAuthToken_def)

text \<open>Witness for C6: the session of \<^verbatim>\<open>NewSession("https://host")\<close>.\<close>

theorem SetAuthenticated_sets_session_and_client_witness:
  "deref [host_client []] (Client host_session) = Some (host_client []) \<and>
   (\<exists>h' s'. SetAuthenticated [host_client []] host_session ''alice'' ''tok123'' ''CyberArk'' =
               Some (h', s') \<and>
           User s' = ''alice'' \<and> SessionToken s' = ''tok123'' \<and> AuthMethod s' = ''CyberArk'' \<and>
           IsAuthenticated s' \<and> GetAuthToken h' (Client s') = Some ''tok123'' \<and>
           GetAuthToken h' (Client s') = Some (SessionToken s'))"
proof -
  have d: "deref [host_client []] (Client host_session) = Some (host_client [])"
    by (simp add: deref_def host_session_def)
  from SetAuthenticated_sets_session_and_client [OF d, of "''alice''" "''tok123''" "''CyberArk''"] d
  show ?thesis by blast
qed

text \<open>
  Claim C2, amended. For every run of calls on the session of \<^verbatim>\<open>NewSession\<close>
  (for a base URI that is not empty), the run returns and \<^verbatim>\<open>IsValid()\<close> is true
  exactly when the latest call among \<^verbatim>\<open>SetAuthenticated\<close> and
  \<^verbatim>\<open>Close\<close> is a \<^verbatim>\<open>SetAuthenticated\<close> whose token is not empty; and
  \<^verbatim>\<open>IsValid()\<close> is false right after any \<^verbatim>\<open>Close()\<close>.
\<close>

theorem IsValid_after_calls:
  assumes "baseURI \<noteq> []"
  shows "(\<exists>h' s'. session_run h baseURI now cs = Some (h', s') \<and>
            IsValid s' = token_set_since_close cs) \<and>
         (\<exists>h' s'. session_run h baseURI now (cs @ [CallClose]) = Some (h', s') \<and>
            \<not> IsValid s')"
proof -
  from NewSession_nonempty [OF assms, of h now] obtain h0 s0 c0 where
    n: "NewSession h baseURI now = Some (Inr (h0, s0))" and
    d: "deref h0 (Client s0) = Some c0" and i: "\<not> IsValid s0"
    by (auto simp: IsValid_def)
  have run: "\<exists>h' s'. session_run h baseURI now ks = Some (h', s') \<and>
            IsValid s' = token_set_since_close ks" for ks
    using calls_keep_client [OF d, of ks] n i
    by (auto simp: session_run_def token_set_since_close_def)
  have "token_set_since_close (cs @ [CallClose]) = False"
    by (simp add: token_set_since_close_def)
  with run [of "cs @ [CallClose]"] run [of cs] show ?thesis by auto
qed

text \<open>Witness for C2: valid after \<^verbatim>\<open>SetAuthenticated\<close> with a token, not after the \<^verbatim>\<open>Close\<close> that follows.\<close>

theorem IsValid_after_calls_witness:
  "''https://host'' \<noteq> [] \<and>
   map_option (IsValid \<circ> snd)
     (session_run [] ''https://host'' 1 [CallSetAuthenticated ''alice'' ''tok123'' ''CyberArk'']) =
     Some True \<and>
   map_option (IsValid \<circ> snd)
     (session_run [] ''https://host'' 1
        ([CallSetAuthenticated ''alice'' ''tok123'' ''CyberArk''] @ [CallClose])) = Some False"
proof -
  have ne: "''https://host'' \<noteq> []" by simp
  have t: "token_set_since_close [CallSetAuthenticated ''alice'' ''tok123'' ''CyberArk'']"
    by (simp add: token_set_since_close_def)
  from IsValid_after_calls [OF ne, of "[]" 1 "[CallSetAuthenticated ''alice'' ''tok123'' ''CyberArk'']"]
    ne t show ?thesis by auto
qed

text \<open>
  Counterexample to C2 as first stated: \<^verbatim>\<open>SetAuthenticated("alice", "", "CyberArk")\<close>
  right after construction. \<^verbatim>\<open>SetAuthenticated\<close> was called and no
  \<^verbatim>\<open>Close\<close> followed, yet \<^verbatim>\<open>IsValid()\<close> is false, the token being empty.
\<close>

theorem IsValid_empty_token_counterexample:
  "spec_authenticated_since_close [CallSetAuthenticated ''alice'' [] ''CyberArk''] \<and>
   map_option (IsValid \<circ> snd)
     (session_run [] ''https://host'' 1 [CallSetAuthenticated ''alice'' [] ''CyberArk'']) =
     Some False"
  by (simp add: spec_authenticated_since_close_def session_run_def host_session_new
      SetAuthenticated_def SetAuthToken_def deref_def host_session_def IsValid_def)

text \<open>
  Claim C9. On a session whose client pointer is valid, after
  \<^verbatim>\<open>SetAuthenticated\<close> with a token that is not empty, any calls other than
  \<^verbatim>\<open>SetAuthenticated\<close>, and then \<^verbatim>\<open>Close\<close>: the run returns, the session's
  token is empty and the session is not valid, but the client's
  \<^verbatim>\<open>GetAuthToken()\<close> still is the token, and every request that this client
  builds afterwards carries the token as its \<^verbatim>\<open>Authorization\<close> header (unless the
  caller's own headers name that key).
\<close>

theorem Close_leaves_client_token:
  assumes "deref h (Client s) = Some c0"
    and "token \<noteq> []"
    and "\<not> list_ex is_SetAuthenticated mid"
  shows "\<exists>h' s' c. calls (CallSetAuthenticated user token authMethod # mid @ [CallClose]) (h, s) =
             Some (h', s') \<and>
           SessionToken s' = [] \<and> \<not> IsValid s' \<and>
           GetAuthToken h' (Client s') = Some token \<and>
           deref h' (Client s') = Some c \<and>
           (\<forall>rt req httpReq.
              Do_request rt c req = Inr httpReq \<and>
              (\<forall>(k, v) \<in> set (req_Headers req).
                 CanonicalHeaderKey rt k \<noteq> CanonicalHeaderKey rt ''Authorization'') \<longrightarrow>
              hr_Header httpReq (CanonicalHeaderKey rt ''Authorization'') = Some [token])"
proof -
  from SetAuthenticated_deref [OF assms(1), of user token authMethod] obtain h1 s1 where
    a: "SetAuthenticated h s user token authMethod = Some (h1, s1)" and
    p1: "Client s1 = Client s" and
    d1: "deref h1 (Client s1) = Some (c0\<lparr>authToken := token\<rparr>)"
    by auto
  from calls_keep_client [OF d1, of mid] assms(3) obtain h2 s2 c2 where
    m: "calls mid (h1, s1) = Some (h2, s2)" and d2: "deref h2 (Client s2) = Some c2" and
    t2: "authToken c2 = token"
    by auto
  have cl: "calls [CallClose] (h2, s2) = Some (h2, Close s2)" by simp
  have run: "calls (CallSetAuthenticated user token authMethod # mid @ [CallClose]) (h, s) =
      Some (h2, Close s2)"
    using a m cl by (simp add: calls_append)
  have d3: "deref h2 (Client (Close s2)) = Some c2"
    using d2 by (simp add: Close_def)
  have g: "GetAuthToken h2 (Client (Close s2)) = Some token"
    using d3 t2 by (simp add: GetAuthToken_def)
  have att: "hr_Header httpReq (CanonicalHeaderKey rt ''Authorization'') = Some [token]"
    if "Do_request rt c2 req = Inr httpReq"
      and "\<forall>(k, v) \<in> set (req_Headers req).
                 CanonicalHeaderKey rt k \<noteq> CanonicalHeaderKey rt ''Authorization''"
    for rt :: "'a runtime" and req httpReq
    using Do_request_token_attached [OF that] t2 assms(2) by simp
  have "SessionToken (Close s2) = []" "\<not> IsValid (Close s2)"
    by (simp_all add: Close_def IsValid_def)
  with run g d3 att show ?thesis by blast
qed

text \<open>
  Witness for C9: authenticate, run a command, close; the client still holds
  \<^verbatim>\<open>tok123\<close> and sends it.
\<close>

theorem Close_leaves_client_token_witness:
  "deref [host_client []] (Client host_session) = Some (host_client []) \<and>
   ''tok123'' \<noteq> [] \<and>
   \<not> list_ex is_SetAuthenticated [CallUpdateLastCommand ''Get-PASAccount'' 2] \<and>
   map_option (\<lambda>(h', s'). (SessionToken s', IsValid s', GetAuthToken h' (Client s')))
     (calls (CallSetAuthenticated ''alice'' ''tok123'' ''CyberArk'' #
             [CallUpdateLastCommand ''Get-PASAccount'' 2] @ [CallClose])
        ([host_client []], host_session)) = Some ([], False, Some ''tok123'') \<and>
   map_sum id (\<lambda>r. hr_Header r ''Authorization'')
     (Do_request (mock_server 200 ''{}'') (host_client ''tok123'') (get_accounts [])) =
     Inr (Some [''tok123''])"
proof -
  let ?rt = "mock_server 200 ''{}''"
  have d: "deref [host_client []] (Client host_session) = Some (host_client [])"
    by (simp add: deref_def host_session_def)
  have n: "''tok123'' \<noteq> []" by simp
  have m: "\<not> list_ex is_SetAuthenticated [CallUpdateLastCommand ''Get-PASAccount'' 2]"
    by simp
  from Close_leaves_client_token [OF d n m, of "''alice''" "''CyberArk''"]
  obtain h' s' c where
    run: "calls (CallSetAuthenticated ''alice'' ''tok123'' ''CyberArk'' #
             [CallUpdateLastCommand ''Get-PASAccount'' 2] @ [CallClose])
            ([host_client []], host_session) = Some (h', s')" and
    f: "SessionToken s' = []" "\<not> IsValid s'" "GetAuthToken h' (Client s') = Some ''tok123''" and
    dc: "deref h' (Client s') = Some c" and
    att: "\<And>req httpReq. Do_request ?rt c req = Inr httpReq \<Longrightarrow>
            (\<forall>(k, v) \<in> set (req_Headers req).
               CanonicalHeaderKey ?rt k \<noteq> CanonicalHeaderKey ?rt ''Authorization'') \<Longrightarrow>
            hr_Header httpReq (CanonicalHeaderKey ?rt ''Authorization'') = Some [''tok123'']"
    by blast
  have "calls (CallSetAuthenticated ''alice'' ''tok123'' ''CyberArk'' #
             [CallUpdateLastCommand ''Get-PASAccount'' 2] @ [CallClose])
            ([host_client []], host_session) =
        Some ([host_client ''tok123''],
              Close (UpdateLastCommand
                (host_session\<lparr>User := ''alice'', SessionToken := ''tok123'',
                   AuthMethod := ''CyberArk'', IsAuthenticated := True\<rparr>)
                ''Get-PASAccount'' 2))"
    by (simp add: SetAuthenticated_def SetAuthToken_def deref_def host_session_def
        host_client_def)
  with run dc have c: "c = host_client ''tok123''"
    by (auto simp: deref_def Close_def UpdateLastCommand_def host_session_def)
  obtain r where r: "Do_request ?rt (host_client ''tok123'') (get_accounts []) = Inr r"
    by (simp add: mock_Do_request)
  have k: "CanonicalHeaderKey ?rt ''Authorization'' = ''Authorization''"
    by (simp add: mock_server_def canonical_Authorization)
  from att [of "get_accounts []" r] r c
  have "hr_Header r ''Authorization'' = Some [''tok123'']"
    by (simp add: k get_accounts_def)
  with d n m run f r show ?thesis by simp
qed

subsection \<open>Requests and responses\<close>

text \<open>
  Claim C3. When \<^verbatim>\<open>Do\<close> has built its request, the transport answers with a
  status of at least 400 and the body is read without error, \<^verbatim>\<open>Do\<close> returns both
  a response and an error: the error is an API error whose \<^verbatim>\<open>StatusCode\<close> is the
  server's status, and the response has that status and the raw body of the server.
\<close>

theorem Do_error_response:
  assumes "Do_request rt c req = Inr httpReq"
    and "RoundTrip rt (httpClient c) httpReq = Inr httpResp"
    and "hresp_Body httpResp = Inr body"
    and "400 \<le> hresp_StatusCode httpResp"
  shows "\<exists>resp e. Do rt c req = (Some resp, Some (APIErr e)) \<and>
           StatusCode e = hresp_StatusCode httpResp \<and>
           resp_StatusCode resp = hresp_StatusCode httpResp \<and>
           resp_Body resp = body"
proof -
  let ?resp = "\<lparr>resp_StatusCode = hresp_StatusCode httpResp, resp_Body = body,
                resp_Headers = hresp_Header httpResp\<rparr>"
  from AsAPIError_parseAPIError [of "json_Unmarshal rt" ?resp] obtain e where
    "parseAPIError (json_Unmarshal rt) ?resp = APIErr e"
    "StatusCode e = hresp_StatusCode httpResp" by auto
  with assms show ?thesis by (simp add: Do_def)
qed

text \<open>Witness for C3: a mock server answering 404 with the body \<^verbatim>\<open>{}\<close>.\<close>

theorem Do_error_response_witness:
  "Do (mock_server 404 ''{}'') (host_client ''tok123'') (get_accounts []) =
     (Some \<lparr>resp_StatusCode = 404, resp_Body = ''{}'', resp_Headers = Map.empty\<rparr>,
      Some (APIErr \<lparr>StatusCode = 404, ErrorCode = [], ErrorMsg = ''Not Found'', Details = []\<rparr>))"
proof -
  let ?rt = "mock_server 404 ''{}''"
  let ?resp = "\<lparr>hresp_StatusCode = 404, hresp_Body = Inr ''{}'', hresp_Header = Map.empty\<rparr>"
  obtain r where r: "Do_request ?rt (host_client ''tok123'') (get_accounts []) = Inr r"
    by (simp add: mock_Do_request)
  have t: "RoundTrip ?rt (httpClient (host_client ''tok123'')) r = Inr ?resp"
    by (simp add: mock_server_def)
  have b: "hresp_Body ?resp = Inr ''{}''" and s: "400 \<le> hresp_StatusCode ?resp"
    by simp_all
  have u: "json_Unmarshal ?rt = syntax_check_Unmarshal"
    by (simp add: mock_server_def)
  have p: "parseAPIError syntax_check_Unmarshal
             \<lparr>resp_StatusCode = 404, resp_Body = ''{}'', resp_Headers = Map.empty\<rparr> =
           APIErr \<lparr>StatusCode = 404, ErrorCode = [], ErrorMsg = ''Not Found'', Details = []\<rparr>"
    by (simp add: parseAPIError_def Unmarshal_APIError_def syntax_check_Unmarshal_def
        json_space_def json_value_start_def defaultErrorMsg_def)
  from Do_error_response [OF r t b s] show ?thesis
    by (simp add: Do_def r t u p)
qed




end
